theory Spec2Isabelle
  imports Complex_Main
begin

section \<open>Python values\<close>

text \<open>
  The values \<open>json.loads\<close> produces: \<open>None\<close>, \<open>bool\<close>, \<open>int\<close>, \<open>float\<close>, \<open>str\<close>,
  \<open>list\<close> and \<open>dict\<close>. A dict is kept as the list of its items in insertion order and read
  with \<open>map_of\<close>. A float is kept as the rational it denotes (the non-standard tokens
  \<open>NaN\<close> and \<open>Infinity\<close> are not represented).
\<close>

datatype json =
    JNull
  | JBool bool
  | JInt int
  | JFloat rat
  | JStr string
  | JArr "json list"
  | JObj "(string \<times> json) list"

text \<open>Python's truth value of an object (\<open>if not x\<close>, \<open>x or y\<close>).\<close>

fun truthy :: "json \<Rightarrow> bool" where
  "truthy JNull = False"
| "truthy (JBool b) = b"
| "truthy (JInt n) = (n \<noteq> 0)"
| "truthy (JFloat r) = (r \<noteq> 0)"
| "truthy (JStr s) = (s \<noteq> [])"
| "truthy (JArr xs) = (xs \<noteq> [])"
| "truthy (JObj kvs) = (kvs \<noteq> [])"

text \<open>\<open>type(x).__name__\<close>, as it appears in the interpreter's error messages.\<close>

fun type_name :: "json \<Rightarrow> string" where
  "type_name JNull = ''NoneType''"
| "type_name (JBool b) = ''bool''"
| "type_name (JInt n) = ''int''"
| "type_name (JFloat r) = ''float''"
| "type_name (JStr s) = ''str''"
| "type_name (JArr xs) = ''list''"
| "type_name (JObj kvs) = ''dict''"

text \<open>\<open>isinstance(x, dict)\<close>: whether a decoded JSON value is an object.\<close>

fun is_dict :: "json \<Rightarrow> bool" where
  "is_dict (JObj kvs) = True"
| "is_dict x = False"

text \<open>\<open>a or b\<close> on two optional strings: \<open>None\<close> and the empty string are both falsy.\<close>

definition py_or :: "string option \<Rightarrow> string option \<Rightarrow> string option" where
  "py_or a b = (case a of None \<Rightarrow> b | Some s \<Rightarrow> if s = [] then b else Some s)"

text \<open>\<open>str(n)\<close> for an integer: decimal digits, with a minus sign when negative.\<close>

fun str_nat :: "nat \<Rightarrow> string" where
  "str_nat n = (if n < 10 then [''0123456789'' ! n]
                else str_nat (n div 10) @ [''0123456789'' ! (n mod 10)])"

declare str_nat.simps [simp del]

definition str_int :: "int \<Rightarrow> string" where
  "str_int i = (if i < 0 then ''-'' @ str_nat (nat (- i)) else str_nat (nat i))"

section \<open>Errors\<close>

text \<open>
  Every exception the code can raise is a value. The three \<open>Wallabag*Error\<close> classes carry
  their message. \<open>ValidationError\<close> is pydantic's, with the fields that failed (in
  declaration order) and why. \<open>AttributeError t a\<close> stands for
  "'t' object has no attribute 'a'"; \<open>TypeError\<close> carries which operation met which type.
  \<open>OtherError\<close> is any exception of the transport that is neither
  \<open>httpx.HTTPStatusError\<close> nor \<open>httpx.RequestError\<close>, and \<open>OverflowError\<close> is raised by
  date arithmetic out of range. \<open>CancelledError\<close> is \<open>asyncio.CancelledError\<close>, raised at an
  \<open>await\<close> when the task is cancelled; it derives from \<open>BaseException\<close>, not from
  \<open>Exception\<close>.
\<close>

datatype field_error = Missing | Invalid

datatype type_error =
    NotIterable string   \<comment> \<open>"'t' object is not iterable"\<close>
  | NotAMapping string   \<comment> \<open>"argument after ** must be a mapping, not t"\<close>

datatype error =
    WallabagConfigError string
  | WallabagAuthError string
  | WallabagApiError string
  | ValidationError "(string \<times> field_error) list"
  | AttributeError string string
  | TypeError type_error
  | OverflowError string
  | OtherError string
  | CancelledError

text \<open>\<open>isinstance(e, Exception)\<close>: what an \<open>except Exception\<close> clause catches.\<close>

fun is_Exception :: "error \<Rightarrow> bool" where
  "is_Exception CancelledError = False"
| "is_Exception e = True"

text \<open>\<open>d.get(k, default)\<close>: defined on a dict only; any other object has no \<open>get\<close>.\<close>

fun dict_get :: "json \<Rightarrow> string \<Rightarrow> json \<Rightarrow> error + json" where
  "dict_get (JObj kvs) k d = Inr (case map_of kvs k of None \<Rightarrow> d | Some v \<Rightarrow> v)"
| "dict_get x k d = Inl (AttributeError (type_name x) ''get'')"

text \<open>
  Iterating an object in a comprehension: a list yields its elements, a dict its keys, a
  string its characters; the other values are not iterable.
\<close>

fun py_iter :: "json \<Rightarrow> error + json list" where
  "py_iter (JArr xs) = Inr xs"
| "py_iter (JObj kvs) = Inr (map (\<lambda>kv. JStr (fst kv)) kvs)"
| "py_iter (JStr s) = Inr (map (\<lambda>c. JStr [c]) s)"
| "py_iter x = Inl (TypeError (NotIterable (type_name x)))"

section \<open>Library behaviour taken as a parameter\<close>

text \<open>
  A \<open>datetime\<close> is kept as the instant \<open>timestamp()\<close> reads off it: whole seconds since the
  Unix epoch and the \<open>microsecond\<close> field (0 to 999999).
\<close>

record datetime =
  posix_seconds :: int
  microsecond :: nat

text \<open>
  What the code delegates to pydantic and to the interpreter, and does not decide itself:
  how a value is validated against the field types \<open>int\<close>, \<open>str\<close>, \<open>bool\<close> and
  \<open>datetime\<close> (\<open>None\<close> when the value is rejected), \<open>str\<close> of a float with a
  fractional part, and \<open>str\<close> of a value that is not a string.
\<close>

record pylib =
  int_validator :: "json \<Rightarrow> int option"
  str_validator :: "json \<Rightarrow> string option"
  bool_validator :: "json \<Rightarrow> bool option"
  datetime_validator :: "json \<Rightarrow> datetime option"
  float_str :: "rat \<Rightarrow> string"
  value_str :: "json \<Rightarrow> string"

text \<open>\<open>Optional[T]\<close>: \<open>None\<close> is accepted as it is, any other value goes to \<open>T\<close>'s validator.\<close>

definition optional :: "(json \<Rightarrow> 'a option) \<Rightarrow> json \<Rightarrow> 'a option option" where
  "optional v x = (if x = JNull then Some None else map_option Some (v x))"

text \<open>
  A field declared without a default is required: a missing key is an error. A field
  declared with a default takes it when the key is missing (defaults are not validated).
\<close>

definition required :: "(json \<Rightarrow> 'a option) \<Rightarrow> (string \<times> json) list \<Rightarrow> string \<Rightarrow> field_error + 'a" where
  "required v kvs k =
     (case map_of kvs k of
        None \<Rightarrow> Inl Missing
      | Some x \<Rightarrow> (case v x of None \<Rightarrow> Inl Invalid | Some a \<Rightarrow> Inr a))"

definition with_default :: "(json \<Rightarrow> 'a option) \<Rightarrow> 'a \<Rightarrow> (string \<times> json) list \<Rightarrow> string \<Rightarrow> field_error + 'a" where
  "with_default v d kvs k =
     (case map_of kvs k of
        None \<Rightarrow> Inr d
      | Some x \<Rightarrow> (case v x of None \<Rightarrow> Inl Invalid | Some a \<Rightarrow> Inr a))"

definition field_errors :: "string \<Rightarrow> field_error + 'a \<Rightarrow> (string \<times> field_error) list" where
  "field_errors k r = (case r of Inl e \<Rightarrow> [(k, e)] | Inr a \<Rightarrow> [])"

definition valid :: "field_error + 'a \<Rightarrow> 'a option" where
  "valid r = (case r of Inl e \<Rightarrow> None | Inr a \<Rightarrow> Some a)"

section \<open>The Article model\<close>

text \<open>
  \<open>class Article(BaseModel)\<close>. Validation reports every failing field at once; the
  instance exists only when every field is valid. The code runs on pydantic 2 (\<open>model_dump\<close>,
  \<open>populate_by_name\<close>), where a field is required exactly when its declaration gives no
  default: \<open>id\<close>, \<open>title\<close>, \<open>url\<close>, \<open>content\<close>, \<open>created_at\<close> and \<open>updated_at\<close>. The
  annotation \<open>Optional[str]\<close> of \<open>content\<close> lets the value be \<open>None\<close>; it does not make the
  key optional. Keys that are no field are ignored.
\<close>

record Article =
  article_id :: int
  title :: string
  url :: string
  content :: "string option"
  created_at :: datetime
  updated_at :: datetime
  reading_time :: "int option"
  domain_name :: "string option"
  preview_picture :: "string option"
  http_status :: "string option"
  is_archived :: bool
  is_starred :: bool

definition Article_init :: "pylib \<Rightarrow> (string \<times> json) list \<Rightarrow> error + Article" where
  "Article_init L kvs =
     (let f_id = required (int_validator L) kvs ''id'';
          f_title = required (str_validator L) kvs ''title'';
          f_url = required (str_validator L) kvs ''url'';
          f_content = required (optional (str_validator L)) kvs ''content'';
          f_created = required (datetime_validator L) kvs ''created_at'';
          f_updated = required (datetime_validator L) kvs ''updated_at'';
          f_reading = with_default (optional (int_validator L)) None kvs ''reading_time'';
          f_domain = with_default (optional (str_validator L)) None kvs ''domain_name'';
          f_preview = with_default (optional (str_validator L)) None kvs ''preview_picture'';
          f_status = with_default (optional (str_validator L)) None kvs ''http_status'';
          f_archived = with_default (bool_validator L) False kvs ''is_archived'';
          f_starred = with_default (bool_validator L) False kvs ''is_starred'';
          errs = field_errors ''id'' f_id @ field_errors ''title'' f_title
               @ field_errors ''url'' f_url @ field_errors ''content'' f_content
               @ field_errors ''created_at'' f_created @ field_errors ''updated_at'' f_updated
               @ field_errors ''reading_time'' f_reading @ field_errors ''domain_name'' f_domain
               @ field_errors ''preview_picture'' f_preview @ field_errors ''http_status'' f_status
               @ field_errors ''is_archived'' f_archived @ field_errors ''is_starred'' f_starred;
          article =
            Option.bind (valid f_id) (\<lambda>i.
            Option.bind (valid f_title) (\<lambda>t.
            Option.bind (valid f_url) (\<lambda>u.
            Option.bind (valid f_content) (\<lambda>c.
            Option.bind (valid f_created) (\<lambda>ca.
            Option.bind (valid f_updated) (\<lambda>ua.
            Option.bind (valid f_reading) (\<lambda>rt.
            Option.bind (valid f_domain) (\<lambda>dn.
            Option.bind (valid f_preview) (\<lambda>pp.
            Option.bind (valid f_status) (\<lambda>hs.
            Option.bind (valid f_archived) (\<lambda>ar.
            Option.bind (valid f_starred) (\<lambda>st.
              Some \<lparr>article_id = i, title = t, url = u, content = c, created_at = ca,
                    updated_at = ua, reading_time = rt, domain_name = dn,
                    preview_picture = pp, http_status = hs, is_archived = ar,
                    is_starred = st\<rparr>))))))))))))
      in case article of Some a \<Rightarrow> Inr a | None \<Rightarrow> Inl (ValidationError errs))"

text \<open>\<open>Article(**x)\<close>: the argument after \<open>**\<close> must be a mapping.\<close>

definition Article_kwargs :: "pylib \<Rightarrow> json \<Rightarrow> error + Article" where
  "Article_kwargs L x =
     (case x of JObj kvs \<Rightarrow> Article_init L kvs
      | _ \<Rightarrow> Inl (TypeError (NotAMapping (type_name x))))"

text \<open>\<open>[Article(**article) for article in articles_data]\<close>, stopping at the first exception.\<close>

fun build_articles :: "pylib \<Rightarrow> json list \<Rightarrow> error + Article list" where
  "build_articles L [] = Inr []"
| "build_articles L (x # xs) =
     (case Article_kwargs L x of
        Inl e \<Rightarrow> Inl e
      | Inr a \<Rightarrow> (case build_articles L xs of Inl e \<Rightarrow> Inl e | Inr as \<Rightarrow> Inr (a # as)))"

definition articles_from :: "pylib \<Rightarrow> json \<Rightarrow> error + Article list" where
  "articles_from L articles_data =
     (case py_iter articles_data of Inl e \<Rightarrow> Inl e | Inr xs \<Rightarrow> build_articles L xs)"

section \<open>Request descriptors\<close>

record GetSingleArticleRequest =
  gs_id :: int

record SearchArticlesRequest =
  sa_search_term :: string
  sa_count :: "int option"

datatype sort_order = Asc | Desc

fun sort_order_str :: "sort_order \<Rightarrow> string" where
  "sort_order_str Asc = ''asc''"
| "sort_order_str Desc = ''desc''"

record GetArticlesRequest =
  ga_is_archived :: bool
  ga_since :: "datetime option"
  ga_domain :: "string option"
  ga_count :: "int option"
  ga_sort_order :: sort_order
  ga_include_content :: bool

text \<open>\<open>GetArticlesRequest()\<close>: every field at its declared default.\<close>

definition default_GetArticlesRequest :: GetArticlesRequest where
  "default_GetArticlesRequest =
     \<lparr>ga_is_archived = False, ga_since = None, ga_domain = None, ga_count = None,
      ga_sort_order = Desc, ga_include_content = False\<rparr>"

section \<open>The transport and its effects\<close>

text \<open>
  A request as \<open>_request\<close> hands it to \<open>httpx\<close>. The \<open>Authorization\<close> header is the only
  header the client ever sets.
\<close>

record request =
  req_method :: string
  req_url :: string
  req_params :: "(string \<times> string) list option"
  req_data :: "(string \<times> string) list option"
  req_headers :: "(string \<times> string) list option"

text \<open>
  A response: its status code, its text, and what \<open>response.json()\<close> gives, which is either
  the message of the \<open>JSONDecodeError\<close> it raises or the decoded value.
\<close>

record response =
  status_code :: nat
  resp_text :: string
  resp_json :: "string + json"

text \<open>
  What awaiting \<open>client.request\<close> does with a request: it returns a response, raises an
  \<open>httpx.RequestError\<close> (connection, timeout, DNS), raises some other exception, or the
  task is cancelled while it waits.
\<close>

datatype outcome =
    Responded response
  | RequestError string
  | OtherFailure string
  | Cancelled

type_synonym transport = "request \<Rightarrow> outcome"

text \<open>
  The observable effects: transport handles are numbered; opening one, sending a request
  through one and closing one are recorded in order.
\<close>

datatype event = Opened nat | Sent nat request | Closed nat

record world =
  events :: "event list"
  next_handle :: nat

definition emit :: "event \<Rightarrow> world \<Rightarrow> world" where
  "emit e w = w\<lparr>events := events w @ [e]\<rparr>"

text \<open>The requests that went out, oldest first.\<close>

fun sent_requests :: "event list \<Rightarrow> request list" where
  "sent_requests [] = []"
| "sent_requests (Sent h rq # es) = rq # sent_requests es"
| "sent_requests (e # es) = sent_requests es"

text \<open>\<open>httpx.AsyncClient()\<close>: a fresh handle.\<close>

definition AsyncClient :: "world \<Rightarrow> nat \<times> world" where
  "AsyncClient w =
     (next_handle w, emit (Opened (next_handle w)) (w\<lparr>next_handle := Suc (next_handle w)\<rparr>))"

text \<open>\<open>response.is_success\<close>: \<open>raise_for_status()\<close> raises unless the status is 2xx.\<close>

definition is_success :: "nat \<Rightarrow> bool" where
  "is_success s = (200 \<le> s \<and> s \<le> 299)"

section \<open>The API client\<close>

text \<open>
  The session: \<open>base_url\<close>, \<open>access_token\<close> (whatever \<open>authenticate\<close> last stored; \<open>None\<close>,
  that is \<open>JNull\<close>, at construction) and \<open>_client\<close>, the caller's transport handle if one
  was supplied.
\<close>

record WallabagClient =
  base_url :: string
  access_token :: json
  supplied_client :: "nat option"

type_synonym getenv = "string \<Rightarrow> string option"

definition WallabagClient_init :: "getenv \<Rightarrow> string option \<Rightarrow> nat option \<Rightarrow> error + WallabagClient" where
  "WallabagClient_init env base client =
     (case py_or base (env ''WALLABAG_BASE_URL'') of
        None \<Rightarrow> Inl (WallabagConfigError
          ''Wallabag base URL is not set. Provide it or set WALLABAG_BASE_URL environment variable.'')
      | Some b \<Rightarrow>
          if b = [] then Inl (WallabagConfigError
            ''Wallabag base URL is not set. Provide it or set WALLABAG_BASE_URL environment variable.'')
          else Inr \<lparr>base_url = b, access_token = JNull, supplied_client = client\<rparr>)"

text \<open>
  The \<open>try\<close> of \<open>_request\<close> with its \<open>except\<close> clauses: a response is returned when
  \<open>raise_for_status()\<close> lets it pass; \<open>HTTPStatusError\<close> and \<open>RequestError\<close> become
  \<open>WallabagApiError\<close>; any other exception is not caught.
\<close>

definition request_result :: "outcome \<Rightarrow> error + response" where
  "request_result out =
     (case out of
        Responded r \<Rightarrow>
          if is_success (status_code r) then Inr r
          else Inl (WallabagApiError
                 (''API request failed: '' @ str_nat (status_code r) @ '' - '' @ resp_text r))
      | RequestError m \<Rightarrow> Inl (WallabagApiError (''Request failed: '' @ m))
      | OtherFailure m \<Rightarrow> Inl (OtherError m)
      | Cancelled \<Rightarrow> Inl CancelledError)"

text \<open>
  \<open>_request\<close>. The handle is the supplied one, or a new one; the \<open>finally\<close> clause closes
  it on every exit when, and only when, none was supplied.
\<close>

definition client_request :: "transport \<Rightarrow> WallabagClient \<Rightarrow> request \<Rightarrow> world \<Rightarrow> (error + response) \<times> world" where
  "client_request net self rq w =
     (let (h, w1) = (case supplied_client self of Some c \<Rightarrow> (c, w) | None \<Rightarrow> AsyncClient w);
          w2 = emit (Sent h rq) w1;
          result = request_result (net rq);
          w3 = (if supplied_client self = None then emit (Closed h) w2 else w2)
      in (result, w3))"

text \<open>
  \<open>authenticate\<close>. Each credential is the argument or, when that is falsy, the environment
  variable; the check is \<open>is None\<close>, so an environment variable set to the empty string
  passes it. \<open>self.access_token\<close> is assigned before it is tested.
\<close>

definition authenticate ::
  "getenv \<Rightarrow> transport \<Rightarrow> WallabagClient \<Rightarrow> string option \<Rightarrow> string option \<Rightarrow> string option
     \<Rightarrow> string option \<Rightarrow> world \<Rightarrow> (error + bool) \<times> WallabagClient \<times> world" where
  "authenticate env net self client_id client_secret username password w =
     (case (py_or client_id (env ''WALLABAG_CLIENT_ID''),
            py_or client_secret (env ''WALLABAG_CLIENT_SECRET''),
            py_or username (env ''WALLABAG_USERNAME''),
            py_or password (env ''WALLABAG_PASSWORD'')) of
        (Some cid, Some csec, Some un, Some pw) \<Rightarrow>
          (let rq = \<lparr>req_method = ''GET'', req_url = base_url self @ ''/oauth/v2/token'',
                     req_params = Some [(''grant_type'', ''password''), (''client_id'', cid),
                                        (''client_secret'', csec), (''username'', un),
                                        (''password'', pw)],
                     req_data = None, req_headers = None\<rparr>;
               (r, w') = client_request net self rq w
           in case r of
                Inl (WallabagApiError m) \<Rightarrow>
                  (Inl (WallabagAuthError (''Authentication failed: '' @ m)), self, w')
              | Inl e \<Rightarrow> (Inl e, self, w')
              | Inr resp \<Rightarrow>
                  (case resp_json resp of
                     Inl m \<Rightarrow>
                       (Inl (WallabagAuthError (''Failed to parse authentication response: '' @ m)),
                        self, w')
                   | Inr token_data \<Rightarrow>
                       (case dict_get token_data ''access_token'' JNull of
                          Inl e \<Rightarrow> (Inl e, self, w')
                        | Inr tok \<Rightarrow>
                            if truthy tok then (Inr True, self\<lparr>access_token := tok\<rparr>, w')
                            else (Inl (WallabagAuthError
                                    ''Authentication successful, but no access token received.''),
                                  self\<lparr>access_token := tok\<rparr>, w'))))
      | _ \<Rightarrow>
          (Inl (WallabagConfigError
             ''Missing required authentication parameters. Please provide client_id, client_secret, username, and password or set corresponding WALLABAG_ environment variables.''),
           self, w))"

text \<open>\<open>f"Bearer {self.access_token}"\<close>: a string is inserted as it is.\<close>

definition bearer :: "pylib \<Rightarrow> json \<Rightarrow> string" where
  "bearer L tok = ''Bearer '' @ (case tok of JStr s \<Rightarrow> s | _ \<Rightarrow> value_str L tok)"

text \<open>
  The \<open>try\<close> block the three read operations share: \<open>_request\<close>, then \<open>response.json()\<close>;
  a \<open>JSONDecodeError\<close> becomes a \<open>WallabagApiError\<close> with the operation's prefix, a
  \<open>WallabagApiError\<close> is re-raised, and nothing else is caught.
\<close>

definition request_json :: "transport \<Rightarrow> WallabagClient \<Rightarrow> request \<Rightarrow> string \<Rightarrow> world \<Rightarrow> (error + json) \<times> world" where
  "request_json net self rq prefix w =
     (let (r, w') = client_request net self rq w
      in case r of
           Inl e \<Rightarrow> (Inl e, w')
         | Inr resp \<Rightarrow>
             (case resp_json resp of
                Inl m \<Rightarrow> (Inl (WallabagApiError (prefix @ m)), w')
              | Inr v \<Rightarrow> (Inr v, w')))"

text \<open>\<open>str(req.count) if req.count else "100"\<close>: \<open>None\<close> and \<open>0\<close> are falsy.\<close>

definition per_page :: "int option \<Rightarrow> string" where
  "per_page c = (case c of None \<Rightarrow> ''100'' | Some n \<Rightarrow> if n = 0 then ''100'' else str_int n)"

text \<open>
  \<open>response_data.get("_embedded", {}).get("items", [])\<close> and the comprehension over it.
\<close>

definition embedded_items :: "pylib \<Rightarrow> json \<Rightarrow> error + Article list" where
  "embedded_items L response_data =
     (case dict_get response_data ''_embedded'' (JObj []) of
        Inl e \<Rightarrow> Inl e
      | Inr embedded \<Rightarrow>
          (case dict_get embedded ''items'' (JArr []) of
             Inl e \<Rightarrow> Inl e
           | Inr articles_data \<Rightarrow> articles_from L articles_data))"

definition search_articles ::
  "pylib \<Rightarrow> transport \<Rightarrow> WallabagClient \<Rightarrow> SearchArticlesRequest \<Rightarrow> world
     \<Rightarrow> (error + Article list) \<times> WallabagClient \<times> world" where
  "search_articles L net self req w =
     (if \<not> truthy (access_token self)
      then (Inl (WallabagAuthError ''Access token is not set. Please authenticate first.''), self, w)
      else
        (let rq = \<lparr>req_method = ''GET'', req_url = base_url self @ ''/api/search'',
                   req_params = Some [(''term'', sa_search_term req),
                                      (''perPage'', per_page (sa_count req))],
                   req_data = None,
                   req_headers = Some [(''Authorization'', bearer L (access_token self))]\<rparr>;
             (r, w') = request_json net self rq ''Failed to parse articles response: '' w
         in case r of
              Inl e \<Rightarrow> (Inl e, self, w')
            | Inr response_data \<Rightarrow> (embedded_items L response_data, self, w')))"

definition get_single_article ::
  "pylib \<Rightarrow> transport \<Rightarrow> WallabagClient \<Rightarrow> GetSingleArticleRequest \<Rightarrow> world
     \<Rightarrow> (error + Article) \<times> WallabagClient \<times> world" where
  "get_single_article L net self req w =
     (if \<not> truthy (access_token self)
      then (Inl (WallabagAuthError ''Access token is not set. Please authenticate first.''), self, w)
      else
        (let rq = \<lparr>req_method = ''GET'',
                   req_url = base_url self @ ''/api/entries/'' @ str_int (gs_id req),
                   req_params = None, req_data = None,
                   req_headers = Some [(''Authorization'', bearer L (access_token self))]\<rparr>;
             (r, w') = request_json net self rq ''Failed to parse article response: '' w
         in case r of
              Inl e \<Rightarrow> (Inl e, self, w')
            | Inr response_data \<Rightarrow> (Article_kwargs L response_data, self, w')))"

text \<open>
  \<open>str(req.since.timestamp())\<close>: \<open>timestamp()\<close> is a float, and \<open>str\<close> of a float that is a
  whole number (below \<open>1e16\<close>, as every timestamp of a \<open>datetime\<close> is) is its digits
  followed by \<open>.0\<close>.
\<close>

definition timestamp_str :: "pylib \<Rightarrow> datetime \<Rightarrow> string" where
  "timestamp_str L d =
     (if microsecond d = 0 then str_int (posix_seconds d) @ ''.0''
      else float_str L (of_int (posix_seconds d) + of_nat (microsecond d) / 1000000))"

text \<open>
  The \<open>params\<close> dict of \<open>get_articles\<close>, in insertion order. A \<open>datetime\<close> is always truthy,
  so \<open>if req.since\<close> tests for \<open>None\<close>; \<open>if req.domain\<close> excludes \<open>None\<close> and the empty
  string.
\<close>

definition get_articles_params :: "pylib \<Rightarrow> GetArticlesRequest \<Rightarrow> (string \<times> string) list" where
  "get_articles_params L req =
     [(''archive'', if ga_is_archived req then ''1'' else ''0''),
      (''perPage'', per_page (ga_count req)),
      (''since'', case ga_since req of Some d \<Rightarrow> timestamp_str L d | None \<Rightarrow> ''0''),
      (''order'', sort_order_str (ga_sort_order req)),
      (''detail'', if ga_include_content req then ''full'' else ''metadata'')]
     @ (case ga_domain req of
          None \<Rightarrow> []
        | Some d \<Rightarrow> if d = [] then [] else [(''domain_name'', d)])"

definition get_articles ::
  "pylib \<Rightarrow> transport \<Rightarrow> WallabagClient \<Rightarrow> GetArticlesRequest \<Rightarrow> world
     \<Rightarrow> (error + Article list) \<times> WallabagClient \<times> world" where
  "get_articles L net self req w =
     (if \<not> truthy (access_token self)
      then (Inl (WallabagAuthError ''Access token is not set. Please authenticate first.''), self, w)
      else
        (let rq = \<lparr>req_method = ''GET'', req_url = base_url self @ ''/api/entries'',
                   req_params = Some (get_articles_params L req),
                   req_data = None,
                   req_headers = Some [(''Authorization'', bearer L (access_token self))]\<rparr>;
             (r, w') = request_json net self rq ''Failed to parse articles response: '' w
         in case r of
              Inl e \<Rightarrow> (Inl e, self, w')
            | Inr response_data \<Rightarrow> (embedded_items L response_data, self, w')))"

text \<open>
  How \<open>httpx\<close> writes a \<open>params\<close> dict on the wire: the items in the dict's order, each as
  \<open>key=value\<close>, joined by \<open>&\<close>. Percent-encoding is left out, so the rendering is the wire's
  for keys and values of unreserved characters only.
\<close>

fun query_string :: "(string \<times> string) list \<Rightarrow> string" where
  "query_string [] = []"
| "query_string [(k, v)] = k @ ''='' @ v"
| "query_string ((k, v) # kvs) = k @ ''='' @ v @ ''&'' @ query_string kvs"

section \<open>The tool adapter\<close>

text \<open>
  What a tool returns, before \<open>json.dumps\<close>: \<open>Failure e\<close> is
  \<open>{"success": False, "error": str(e)}\<close>, the others are the three success envelopes.
\<close>

datatype tool_result =
    Failure error
  | SingleArticle Article
  | SavedArticles nat "Article list"
  | FoundArticles nat "Article list"

definition initialize_client :: "getenv \<Rightarrow> transport \<Rightarrow> world \<Rightarrow> (error + WallabagClient) \<times> world" where
  "initialize_client env net w =
     (case WallabagClient_init env None None of
        Inl e \<Rightarrow> (Inl e, w)
      | Inr c \<Rightarrow>
          (case authenticate env net c None None None None w of
             (Inl e, c', w') \<Rightarrow> (Inl e, w')
           | (Inr ok, c', w') \<Rightarrow> (Inr c', w')))"

text \<open>
  The module-level \<open>client\<close> is the state of the adapter. Each tool initialises it when it
  is \<open>None\<close>, outside its \<open>try\<close>; what that raises leaves the tool as an exception, and the
  global stays \<open>None\<close>. Inside the \<open>try\<close>, \<open>except Exception\<close> turns what it catches into
  a \<open>Failure\<close>; an exception that is no \<open>Exception\<close> leaves the tool.
\<close>

definition except_Exception :: "error \<Rightarrow> error + tool_result" where
  "except_Exception e = (if is_Exception e then Inr (Failure e) else Inl e)"

definition ensure_client ::
  "getenv \<Rightarrow> transport \<Rightarrow> WallabagClient option \<Rightarrow> world \<Rightarrow> (error + WallabagClient) \<times> world" where
  "ensure_client env net g w =
     (case g of Some c \<Rightarrow> (Inr c, w) | None \<Rightarrow> initialize_client env net w)"

definition get_single_wallabag_article ::
  "pylib \<Rightarrow> getenv \<Rightarrow> transport \<Rightarrow> WallabagClient option \<Rightarrow> int \<Rightarrow> world
     \<Rightarrow> (error + tool_result) \<times> WallabagClient option \<times> world" where
  "get_single_wallabag_article L env net g i w =
     (case ensure_client env net g w of
        (Inl e, w1) \<Rightarrow> (Inl e, g, w1)
      | (Inr c, w1) \<Rightarrow>
          (case get_single_article L net c \<lparr>gs_id = i\<rparr> w1 of
             (Inl e, c', w2) \<Rightarrow> (except_Exception e, Some c', w2)
           | (Inr article, c', w2) \<Rightarrow> (Inr (SingleArticle article), Some c', w2)))"

text \<open>
  \<open>clock n\<close> is \<open>datetime.now() - timedelta(days=n)\<close>: the date, or the \<open>OverflowError\<close>
  the subtraction raises.
\<close>

definition get_wallabag_articles ::
  "pylib \<Rightarrow> getenv \<Rightarrow> transport \<Rightarrow> (int \<Rightarrow> error + datetime) \<Rightarrow> WallabagClient option
     \<Rightarrow> bool \<Rightarrow> string option \<Rightarrow> int option \<Rightarrow> int option \<Rightarrow> sort_order \<Rightarrow> bool \<Rightarrow> world
     \<Rightarrow> (error + tool_result) \<times> WallabagClient option \<times> world" where
  "get_wallabag_articles L env net clock g archived domain_arg since_days_ago cnt order_arg
       with_content w =
     (case ensure_client env net g w of
        (Inl e, w1) \<Rightarrow> (Inl e, g, w1)
      | (Inr c, w1) \<Rightarrow>
          (case (case since_days_ago of None \<Rightarrow> Inr None
                 | Some n \<Rightarrow> (case clock n of Inl e \<Rightarrow> Inl e | Inr d \<Rightarrow> Inr (Some d))) of
             Inl e \<Rightarrow> (except_Exception e, Some c, w1)
           | Inr since_date \<Rightarrow>
               (case get_articles L net c
                       \<lparr>ga_is_archived = archived, ga_since = since_date,
                        ga_domain = domain_arg, ga_count = cnt, ga_sort_order = order_arg,
                        ga_include_content = with_content\<rparr> w1 of
                  (Inl e, c', w2) \<Rightarrow> (except_Exception e, Some c', w2)
                | (Inr articles, c', w2) \<Rightarrow>
                    (Inr (SavedArticles (length articles) articles), Some c', w2))))"

definition tool_search_articles ::
  "pylib \<Rightarrow> getenv \<Rightarrow> transport \<Rightarrow> WallabagClient option \<Rightarrow> string \<Rightarrow> int option \<Rightarrow> world
     \<Rightarrow> (error + tool_result) \<times> WallabagClient option \<times> world" where
  "tool_search_articles L env net g search_term cnt w =
     (case ensure_client env net g w of
        (Inl e, w1) \<Rightarrow> (Inl e, g, w1)
      | (Inr c, w1) \<Rightarrow>
          (case search_articles L net c \<lparr>sa_search_term = search_term, sa_count = cnt\<rparr> w1 of
             (Inl e, c', w2) \<Rightarrow> (except_Exception e, Some c', w2)
           | (Inr articles, c', w2) \<Rightarrow>
               (Inr (FoundArticles (length articles) articles), Some c', w2)))"

section \<open>Concrete inputs\<close>

text \<open>
  A stand-in for the library, used only to run the model on concrete inputs: validators
  that accept a value of the field's own JSON type and nothing else, a \<open>datetime\<close>
  validator that reads Unix time and the two ISO strings of the examples, and \<open>str\<close> of
  \<open>None\<close>, booleans and integers.
\<close>

definition example_lib :: pylib where
  "example_lib =
     \<lparr>int_validator = (\<lambda>x. case x of JInt n \<Rightarrow> Some n | _ \<Rightarrow> None),
      str_validator = (\<lambda>x. case x of JStr s \<Rightarrow> Some s | _ \<Rightarrow> None),
      bool_validator = (\<lambda>x. case x of JBool b \<Rightarrow> Some b | _ \<Rightarrow> None),
      datetime_validator =
        (\<lambda>x. case x of
               JInt n \<Rightarrow> Some \<lparr>posix_seconds = n, microsecond = 0\<rparr>
             | JStr s \<Rightarrow>
                 if s = ''2023-01-01T10:00:00Z''
                 then Some \<lparr>posix_seconds = 1672567200, microsecond = 0\<rparr>
                 else if s = ''2023-01-01T11:00:00Z''
                 then Some \<lparr>posix_seconds = 1672570800, microsecond = 0\<rparr>
                 else None
             | _ \<Rightarrow> None),
      float_str = (\<lambda>r. []),
      value_str =
        (\<lambda>x. case x of
               JNull \<Rightarrow> ''None''
             | JBool b \<Rightarrow> if b then ''True'' else ''False''
             | JInt n \<Rightarrow> str_int n
             | _ \<Rightarrow> [])\<rparr>"

text \<open>The first item of the test suite's payload, and the same item without \<open>content\<close>.\<close>

definition full_payload :: "(string \<times> json) list" where
  "full_payload =
     [(''id'', JInt 1), (''title'', JStr ''Article 1''), (''url'', JStr ''http://example.com/1''),
      (''content'', JStr ''Content 1''),
      (''created_at'', JStr ''2023-01-01T10:00:00Z''),
      (''updated_at'', JStr ''2023-01-01T11:00:00Z''),
      (''is_archived'', JBool False), (''is_starred'', JBool True),
      (''reading_time'', JInt 5), (''domain_name'', JStr ''example.com''),
      (''preview_picture'', JStr ''http://img.com/1.jpg''), (''http_status'', JStr ''200'')]"

definition payload_without_content :: "(string \<times> json) list" where
  "payload_without_content =
     [(''id'', JInt 1), (''title'', JStr ''Article 1''), (''url'', JStr ''http://example.com/1''),
      (''created_at'', JStr ''2023-01-01T10:00:00Z''),
      (''updated_at'', JStr ''2023-01-01T11:00:00Z'')]"

text \<open>\<open>datetime(2023, 1, 1, 0, 0, 0, tzinfo=timezone.utc)\<close>, the test suite's \<open>since\<close>.\<close>

definition since_2023 :: datetime where
  "since_2023 = \<lparr>posix_seconds = 1672531200, microsecond = 0\<rparr>"

text \<open>
  The request of the test suite's \<open>test_get_articles_with_custom_request_params\<close>:
  \<open>GetArticlesRequest(is_archived=True, since=since_dt, domain="test.dev", count=5,
  sort_order="asc")\<close>.
\<close>

definition custom_request :: GetArticlesRequest where
  "custom_request =
     \<lparr>ga_is_archived = True, ga_since = Some since_2023, ga_domain = Some ''test.dev'',
      ga_count = Some 5, ga_sort_order = Asc, ga_include_content = False\<rparr>"

text \<open>An environment with no variable set, and the test suite's environment.\<close>

definition empty_env :: getenv where
  "empty_env k = None"

definition example_env :: getenv where
  "example_env =
     map_of [(''WALLABAG_BASE_URL'', ''http://test-wallabag.com''),
             (''WALLABAG_CLIENT_ID'', ''test_client_id_env''),
             (''WALLABAG_CLIENT_SECRET'', ''test_client_secret_env''),
             (''WALLABAG_USERNAME'', ''test_user_env''),
             (''WALLABAG_PASSWORD'', ''test_pass_env'')]"

definition fresh_world :: world where
  "fresh_world = \<lparr>events = [], next_handle = 0\<rparr>"

text \<open>
  A client just constructed, one that has authenticated, and one constructed around the
  caller's transport handle 7.
\<close>

definition new_client :: WallabagClient where
  "new_client =
     \<lparr>base_url = ''http://test-wallabag.com'', access_token = JNull, supplied_client = None\<rparr>"

definition authenticated_client :: WallabagClient where
  "authenticated_client =
     \<lparr>base_url = ''http://test-wallabag.com'', access_token = JStr ''test_access_token'',
      supplied_client = None\<rparr>"

definition shared_client :: WallabagClient where
  "shared_client =
     \<lparr>base_url = ''http://test-wallabag.com'', access_token = JStr ''test_access_token'',
      supplied_client = Some 7\<rparr>"

text \<open>
  Servers: one that answers every request with status 200 and the given JSON body, one
  that answers 500, and one that cannot be reached.
\<close>

definition serve :: "json \<Rightarrow> transport" where
  "serve body rq = Responded \<lparr>status_code = 200, resp_text = [], resp_json = Inr body\<rparr>"

definition failing_server :: transport where
  "failing_server rq =
     Responded \<lparr>status_code = 500, resp_text = ''Internal Server Error'',
                resp_json = Inl ''Expecting value: line 1 column 1 (char 0)''\<rparr>"

definition unreachable :: transport where
  "unreachable rq = RequestError ''All connection attempts failed''"

text \<open>A transport whose every request is cut short by the cancellation of the task.\<close>

definition cancelled_transport :: transport where
  "cancelled_transport rq = Cancelled"

definition example_request :: request where
  "example_request =
     \<lparr>req_method = ''GET'', req_url = ''http://test-wallabag.com/api/entries/59'',
      req_params = None, req_data = None, req_headers = None\<rparr>"

section \<open>Auxiliary facts\<close>

lemma case_four_none:
  "a = None \<or> b = None \<or> c = None \<or> d = None \<Longrightarrow>
   (case (a, b, c, d) of (Some x, Some y, Some z, Some u) \<Rightarrow> f x y z u | _ \<Rightarrow> g) = g"
  by (auto split: option.splits)

lemma sent_requests_append:
  "sent_requests (xs @ ys) = sent_requests xs @ sent_requests ys"
proof (induction xs)
  case Nil
  show ?case by simp
next
  case (Cons e xs)
  then show ?case by (cases e) simp_all
qed

text \<open>What \<open>_request\<close> returns depends on the transport's outcome alone.\<close>

lemma client_request_result:
  "fst (client_request net self rq w) = request_result (net rq)"
  by (simp add: client_request_def Let_def split: prod.splits)

lemma client_request_sent:
  "sent_requests (events (snd (client_request net self rq w))) = sent_requests (events w) @ [rq]"
  by (simp add: client_request_def AsyncClient_def emit_def Let_def sent_requests_append
      split: option.splits)

lemma request_json_world:
  "snd (request_json net self rq p w) = snd (client_request net self rq w)"
  by (simp add: request_json_def split: prod.splits sum.splits)

lemma request_json_ok:
  assumes "net rq = Responded r" and "is_success (status_code r)" and "resp_json r = Inr j"
  shows "fst (request_json net self rq p w) = Inr j"
proof -
  obtain x w' where cr: "client_request net self rq w = (x, w')"
    by (cases "client_request net self rq w")
  have "x = request_result (net rq)"
    using client_request_result [of net self rq w] cr by simp
  then have "x = Inr r"
    using assms by (simp add: request_result_def)
  then show ?thesis
    using cr assms by (simp add: request_json_def)
qed

text \<open>
  On a 2xx response that decodes to \<open>j\<close>, both listing operations of an authenticated
  client return what the navigation of \<open>j\<close> gives.
\<close>

lemma get_articles_ok:
  assumes "truthy (access_token self)" and "\<And>rq. net rq = Responded r"
    and "is_success (status_code r)" and "resp_json r = Inr j"
  shows "fst (get_articles L net self req w) = embedded_items L j"
proof -
  let ?rq = "\<lparr>req_method = ''GET'', req_url = base_url self @ ''/api/entries'',
              req_params = Some (get_articles_params L req), req_data = None,
              req_headers = Some [(''Authorization'', bearer L (access_token self))]\<rparr>"
  obtain x w' where rj:
    "request_json net self ?rq ''Failed to parse articles response: '' w = (x, w')"
    by (cases "request_json net self ?rq ''Failed to parse articles response: '' w")
  have "fst (request_json net self ?rq ''Failed to parse articles response: '' w) = Inr j"
    by (rule request_json_ok [OF assms(2) assms(3) assms(4)])
  then have "x = Inr j"
    using rj by simp
  then show ?thesis
    using assms(1) rj by (simp add: get_articles_def)
qed

lemma search_articles_ok:
  assumes "truthy (access_token self)" and "\<And>rq. net rq = Responded r"
    and "is_success (status_code r)" and "resp_json r = Inr j"
  shows "fst (search_articles L net self req w) = embedded_items L j"
proof -
  let ?rq = "\<lparr>req_method = ''GET'', req_url = base_url self @ ''/api/search'',
              req_params = Some [(''term'', sa_search_term req),
                                 (''perPage'', per_page (sa_count req))],
              req_data = None,
              req_headers = Some [(''Authorization'', bearer L (access_token self))]\<rparr>"
  obtain x w' where rj:
    "request_json net self ?rq ''Failed to parse articles response: '' w = (x, w')"
    by (cases "request_json net self ?rq ''Failed to parse articles response: '' w")
  have "fst (request_json net self ?rq ''Failed to parse articles response: '' w) = Inr j"
    by (rule request_json_ok [OF assms(2) assms(3) assms(4)])
  then have "x = Inr j"
    using rj by simp
  then show ?thesis
    using assms(1) rj by (simp add: search_articles_def)
qed

lemma get_articles_world:
  assumes "truthy (access_token self)"
  shows "snd (snd (get_articles L net self req w))
       = snd (client_request net self
           \<lparr>req_method = ''GET'', req_url = base_url self @ ''/api/entries'',
            req_params = Some (get_articles_params L req), req_data = None,
            req_headers = Some [(''Authorization'', bearer L (access_token self))]\<rparr> w)"
proof -
  let ?rq = "\<lparr>req_method = ''GET'', req_url = base_url self @ ''/api/entries'',
              req_params = Some (get_articles_params L req), req_data = None,
              req_headers = Some [(''Authorization'', bearer L (access_token self))]\<rparr>"
  obtain x w' where rj:
    "request_json net self ?rq ''Failed to parse articles response: '' w = (x, w')"
    by (cases "request_json net self ?rq ''Failed to parse articles response: '' w")
  have "w' = snd (client_request net self ?rq w)"
    using request_json_world [of net self ?rq "''Failed to parse articles response: ''" w] rj
    by simp
  then show ?thesis
    using assms rj by (simp add: get_articles_def split: sum.splits)
qed

lemma embedded_items_absent:
  assumes "map_of kvs ''_embedded'' = None
         \<or> (\<exists>ekvs. map_of kvs ''_embedded'' = Some (JObj ekvs) \<and> map_of ekvs ''items'' = None)"
  shows "embedded_items L (JObj kvs) = Inr []"
  using assms by (auto simp: embedded_items_def articles_from_def)

lemma embedded_items_not_object:
  assumes "\<not> is_dict j"
  shows "embedded_items L j = Inl (AttributeError (type_name j) ''get'')"
  using assms by (cases j) (simp_all add: embedded_items_def)

text \<open>The concrete runs the examples below evaluate.\<close>

lemmas run_defs =
  get_articles_def search_articles_def get_single_article_def request_json_def
  client_request_def request_result_def AsyncClient_def emit_def is_success_def
  embedded_items_def articles_from_def bearer_def get_articles_params_def per_page_def
  default_GetArticlesRequest_def serve_def fresh_world_def authenticated_client_def
  new_client_def Let_def

section \<open>The Article model (C1)\<close>

text \<open>Without a \<open>content\<close> key no payload deserializes, whatever the validators accept.\<close>

lemma Article_init_requires_content:
  "map_of kvs ''content'' = None \<Longrightarrow> \<exists>errs. Article_init L kvs = Inl (ValidationError errs)"
  by (simp add: Article_init_def required_def valid_def Let_def)

text \<open>
  C1, as amended. A payload that carries \<open>id\<close>, \<open>title\<close>, \<open>url\<close>, \<open>created_at\<close> and
  \<open>updated_at\<close> with values their validators accept deserializes whenever it also
  carries \<open>content\<close> (a string or null): with every other field present, each field is
  exposed as validated; with the other six omitted, \<open>is_archived\<close> and \<open>is_starred\<close> are
  \<open>False\<close> and \<open>reading_time\<close>, \<open>domain_name\<close>, \<open>preview_picture\<close> and \<open>http_status\<close> are
  \<open>None\<close>. Without a \<open>content\<close> key the payload is rejected with a \<open>ValidationError\<close>.
\<close>

theorem Article_deserialization:
  assumes "map_of kvs ''id'' = Some v1" and "int_validator L v1 = Some i"
    and "map_of kvs ''title'' = Some v2" and "str_validator L v2 = Some t"
    and "map_of kvs ''url'' = Some v3" and "str_validator L v3 = Some u"
    and "map_of kvs ''created_at'' = Some v5" and "datetime_validator L v5 = Some ca"
    and "map_of kvs ''updated_at'' = Some v6" and "datetime_validator L v6 = Some ua"
  shows "(map_of kvs ''content'' = Some v4 \<and> optional (str_validator L) v4 = Some c
          \<and> map_of kvs ''reading_time'' = Some v7 \<and> optional (int_validator L) v7 = Some rt
          \<and> map_of kvs ''domain_name'' = Some v8 \<and> optional (str_validator L) v8 = Some dn
          \<and> map_of kvs ''preview_picture'' = Some v9 \<and> optional (str_validator L) v9 = Some pp
          \<and> map_of kvs ''http_status'' = Some v10 \<and> optional (str_validator L) v10 = Some hs
          \<and> map_of kvs ''is_archived'' = Some v11 \<and> bool_validator L v11 = Some ar
          \<and> map_of kvs ''is_starred'' = Some v12 \<and> bool_validator L v12 = Some st
          \<longrightarrow> Article_init L kvs
              = Inr \<lparr>article_id = i, title = t, url = u, content = c, created_at = ca,
                     updated_at = ua, reading_time = rt, domain_name = dn,
                     preview_picture = pp, http_status = hs, is_archived = ar,
                     is_starred = st\<rparr>)
       \<and> (map_of kvs ''content'' = Some v4 \<and> optional (str_validator L) v4 = Some c
          \<and> map_of kvs ''reading_time'' = None \<and> map_of kvs ''domain_name'' = None
          \<and> map_of kvs ''preview_picture'' = None \<and> map_of kvs ''http_status'' = None
          \<and> map_of kvs ''is_archived'' = None \<and> map_of kvs ''is_starred'' = None
          \<longrightarrow> Article_init L kvs
              = Inr \<lparr>article_id = i, title = t, url = u, content = c, created_at = ca,
                     updated_at = ua, reading_time = None, domain_name = None,
                     preview_picture = None, http_status = None, is_archived = False,
                     is_starred = False\<rparr>)
       \<and> (map_of kvs ''content'' = None
          \<longrightarrow> (\<exists>errs. Article_init L kvs = Inl (ValidationError errs)))"
proof (intro conjI impI)
  assume "map_of kvs ''content'' = Some v4 \<and> optional (str_validator L) v4 = Some c
          \<and> map_of kvs ''reading_time'' = Some v7 \<and> optional (int_validator L) v7 = Some rt
          \<and> map_of kvs ''domain_name'' = Some v8 \<and> optional (str_validator L) v8 = Some dn
          \<and> map_of kvs ''preview_picture'' = Some v9 \<and> optional (str_validator L) v9 = Some pp
          \<and> map_of kvs ''http_status'' = Some v10 \<and> optional (str_validator L) v10 = Some hs
          \<and> map_of kvs ''is_archived'' = Some v11 \<and> bool_validator L v11 = Some ar
          \<and> map_of kvs ''is_starred'' = Some v12 \<and> bool_validator L v12 = Some st"
  then show "Article_init L kvs
              = Inr \<lparr>article_id = i, title = t, url = u, content = c, created_at = ca,
                     updated_at = ua, reading_time = rt, domain_name = dn,
                     preview_picture = pp, http_status = hs, is_archived = ar,
                     is_starred = st\<rparr>"
    using assms by (simp add: Article_init_def required_def with_default_def valid_def)
next
  assume "map_of kvs ''content'' = Some v4 \<and> optional (str_validator L) v4 = Some c
          \<and> map_of kvs ''reading_time'' = None \<and> map_of kvs ''domain_name'' = None
          \<and> map_of kvs ''preview_picture'' = None \<and> map_of kvs ''http_status'' = None
          \<and> map_of kvs ''is_archived'' = None \<and> map_of kvs ''is_starred'' = None"
  then show "Article_init L kvs
              = Inr \<lparr>article_id = i, title = t, url = u, content = c, created_at = ca,
                     updated_at = ua, reading_time = None, domain_name = None,
                     preview_picture = None, http_status = None, is_archived = False,
                     is_starred = False\<rparr>"
    using assms by (simp add: Article_init_def required_def with_default_def valid_def)
next
  assume "map_of kvs ''content'' = None"
  then show "\<exists>errs. Article_init L kvs = Inl (ValidationError errs)"
    by (rule Article_init_requires_content)
qed

text \<open>
  The theorem on the first item of the test suite's payload, and on the same item with
  \<open>content\<close> null and the other optional fields omitted.
\<close>

theorem Article_deserialization_witness:
  "Article_init example_lib full_payload
     = Inr \<lparr>article_id = 1, title = ''Article 1'', url = ''http://example.com/1'',
            content = Some ''Content 1'',
            created_at = \<lparr>posix_seconds = 1672567200, microsecond = 0\<rparr>,
            updated_at = \<lparr>posix_seconds = 1672570800, microsecond = 0\<rparr>,
            reading_time = Some 5, domain_name = Some ''example.com'',
            preview_picture = Some ''http://img.com/1.jpg'', http_status = Some ''200'',
            is_archived = False, is_starred = True\<rparr>
   \<and> Article_init example_lib ((''content'', JNull) # payload_without_content)
     = Inr \<lparr>article_id = 1, title = ''Article 1'', url = ''http://example.com/1'',
            content = None,
            created_at = \<lparr>posix_seconds = 1672567200, microsecond = 0\<rparr>,
            updated_at = \<lparr>posix_seconds = 1672570800, microsecond = 0\<rparr>,
            reading_time = None, domain_name = None, preview_picture = None,
            http_status = None, is_archived = False, is_starred = False\<rparr>"
proof -
  have full: "Article_init example_lib full_payload
     = Inr \<lparr>article_id = 1, title = ''Article 1'', url = ''http://example.com/1'',
            content = Some ''Content 1'',
            created_at = \<lparr>posix_seconds = 1672567200, microsecond = 0\<rparr>,
            updated_at = \<lparr>posix_seconds = 1672570800, microsecond = 0\<rparr>,
            reading_time = Some 5, domain_name = Some ''example.com'',
            preview_picture = Some ''http://img.com/1.jpg'', http_status = Some ''200'',
            is_archived = False, is_starred = True\<rparr>"
    using Article_deserialization
      [where kvs = full_payload and L = example_lib
         and ?v1.0 = "JInt 1" and i = 1
         and ?v2.0 = "JStr ''Article 1''" and t = "''Article 1''"
         and ?v3.0 = "JStr ''http://example.com/1''" and u = "''http://example.com/1''"
         and ?v4.0 = "JStr ''Content 1''" and c = "Some ''Content 1''"
         and ?v5.0 = "JStr ''2023-01-01T10:00:00Z''"
         and ca = "\<lparr>posix_seconds = 1672567200, microsecond = 0\<rparr>"
         and ?v6.0 = "JStr ''2023-01-01T11:00:00Z''"
         and ua = "\<lparr>posix_seconds = 1672570800, microsecond = 0\<rparr>"
         and ?v7.0 = "JInt 5" and rt = "Some 5"
         and ?v8.0 = "JStr ''example.com''" and dn = "Some ''example.com''"
         and ?v9.0 = "JStr ''http://img.com/1.jpg''" and pp = "Some ''http://img.com/1.jpg''"
         and ?v10.0 = "JStr ''200''" and hs = "Some ''200''"
         and ?v11.0 = "JBool False" and ar = False
         and ?v12.0 = "JBool True" and st = True]
    by (simp add: full_payload_def example_lib_def optional_def)
  have dflt: "Article_init example_lib ((''content'', JNull) # payload_without_content)
     = Inr \<lparr>article_id = 1, title = ''Article 1'', url = ''http://example.com/1'',
            content = None,
            created_at = \<lparr>posix_seconds = 1672567200, microsecond = 0\<rparr>,
            updated_at = \<lparr>posix_seconds = 1672570800, microsecond = 0\<rparr>,
            reading_time = None, domain_name = None, preview_picture = None,
            http_status = None, is_archived = False, is_starred = False\<rparr>"
    using Article_deserialization
      [where kvs = "(''content'', JNull) # payload_without_content" and L = example_lib
         and ?v1.0 = "JInt 1" and i = 1
         and ?v2.0 = "JStr ''Article 1''" and t = "''Article 1''"
         and ?v3.0 = "JStr ''http://example.com/1''" and u = "''http://example.com/1''"
         and ?v4.0 = JNull and c = None
         and ?v5.0 = "JStr ''2023-01-01T10:00:00Z''"
         and ca = "\<lparr>posix_seconds = 1672567200, microsecond = 0\<rparr>"
         and ?v6.0 = "JStr ''2023-01-01T11:00:00Z''"
         and ua = "\<lparr>posix_seconds = 1672570800, microsecond = 0\<rparr>"]
    by (simp add: payload_without_content_def example_lib_def optional_def)
  show ?thesis
    using full dflt by (rule conjI)
qed

text \<open>
  C1 as stated fails: the first item of the test suite's payload, with \<open>content\<close> taken
  out, has the five fields the claim requires and is rejected with a \<open>ValidationError\<close>
  that reports \<open>content\<close> as missing. The class declares \<open>content: Optional[str]\<close> in
  the group of fields without a default.
\<close>

theorem article_without_content_is_rejected:
  "Article_kwargs example_lib (JObj payload_without_content)
     = Inl (ValidationError [(''content'', Missing)])"
  by (simp add: Article_kwargs_def Article_init_def payload_without_content_def example_lib_def
      required_def with_default_def field_errors_def valid_def optional_def)

section \<open>The query of get_articles (C2, C4)\<close>

text \<open>
  C2. The claim: a supplied \<open>since\<close> goes out as its epoch seconds rendered as an integer.
  The code sends \<open>str(req.since.timestamp())\<close>, the text of a float: for the test suite's
  \<open>since\<close>, midnight of 1 January 2023 UTC, the parameter is \<open>1672531200.0\<close>, not
  \<open>1672531200\<close>. With no \<open>since\<close> it is \<open>0\<close>, as claimed.
\<close>

theorem since_is_sent_as_float_text:
  "map_of (get_articles_params L (default_GetArticlesRequest\<lparr>ga_since := Some since_2023\<rparr>))
       ''since'' = Some ''1672531200.0''
   \<and> ''1672531200.0'' \<noteq> str_int 1672531200
   \<and> map_of (get_articles_params L default_GetArticlesRequest) ''since'' = Some ''0''"
  by (simp add: get_articles_params_def default_GetArticlesRequest_def since_2023_def
      timestamp_str_def str_int_def str_nat.simps)

text \<open>
  What \<open>get_articles\<close> of an authenticated client sends, whatever the request: one
  request, whose parameters are \<open>archive\<close>, \<open>perPage\<close>, \<open>since\<close>, \<open>order\<close>, \<open>detail\<close> and,
  exactly when \<open>domain\<close> is non-empty, \<open>domain_name\<close>. \<open>archive\<close> is 1 if \<open>is_archived\<close>
  else 0; \<open>perPage\<close> is \<open>str(count)\<close> if \<open>count\<close> is given and not zero, else 100; \<open>order\<close>
  is \<open>sort_order\<close>; \<open>detail\<close> is \<open>full\<close> if \<open>include_content\<close> else \<open>metadata\<close>; \<open>since\<close> is 0
  when no \<open>since\<close> is given; \<open>domain_name\<close> is \<open>domain\<close>. The dict is filled in the order
  \<open>archive\<close>, \<open>perPage\<close>, \<open>since\<close>, \<open>order\<close>, \<open>detail\<close>, \<open>domain_name\<close>.
\<close>

lemma get_articles_query:
  assumes "truthy (access_token self)"
  shows "\<exists>rq ps.
       sent_requests (events (snd (snd (get_articles L net self req w))))
         = sent_requests (events w) @ [rq]
     \<and> req_params rq = Some ps
     \<and> map fst ps = [''archive'', ''perPage'', ''since'', ''order'', ''detail'']
          @ (case ga_domain req of None \<Rightarrow> []
             | Some d \<Rightarrow> if d = [] then [] else [''domain_name''])
     \<and> map_of ps ''archive'' = Some (if ga_is_archived req then ''1'' else ''0'')
     \<and> map_of ps ''perPage''
          = Some (case ga_count req of None \<Rightarrow> ''100''
                  | Some n \<Rightarrow> if n = 0 then ''100'' else str_int n)
     \<and> map_of ps ''order'' = Some (case ga_sort_order req of Asc \<Rightarrow> ''asc'' | Desc \<Rightarrow> ''desc'')
     \<and> map_of ps ''detail'' = Some (if ga_include_content req then ''full'' else ''metadata'')
     \<and> (ga_since req = None \<longrightarrow> map_of ps ''since'' = Some ''0'')
     \<and> map_of ps ''domain_name''
          = (case ga_domain req of None \<Rightarrow> None | Some d \<Rightarrow> if d = [] then None else Some d)
     \<and> (req = default_GetArticlesRequest \<longrightarrow>
          query_string ps = ''archive=0&perPage=100&since=0&order=desc&detail=metadata'')"
proof -
  let ?ps = "get_articles_params L req"
  let ?rq = "\<lparr>req_method = ''GET'', req_url = base_url self @ ''/api/entries'',
              req_params = Some ?ps, req_data = None,
              req_headers = Some [(''Authorization'', bearer L (access_token self))]\<rparr>"
  have sent: "sent_requests (events (snd (snd (get_articles L net self req w))))
         = sent_requests (events w) @ [?rq]"
    using get_articles_world [OF assms] client_request_sent by simp
  have keys: "map fst ?ps = [''archive'', ''perPage'', ''since'', ''order'', ''detail'']
          @ (case ga_domain req of None \<Rightarrow> []
             | Some d \<Rightarrow> if d = [] then [] else [''domain_name''])"
    by (simp add: get_articles_params_def split: option.splits)
  have archive: "map_of ?ps ''archive'' = Some (if ga_is_archived req then ''1'' else ''0'')"
    by (simp add: get_articles_params_def)
  have per: "map_of ?ps ''perPage''
          = Some (case ga_count req of None \<Rightarrow> ''100''
                  | Some n \<Rightarrow> if n = 0 then ''100'' else str_int n)"
    by (simp add: get_articles_params_def per_page_def)
  have order: "map_of ?ps ''order''
          = Some (case ga_sort_order req of Asc \<Rightarrow> ''asc'' | Desc \<Rightarrow> ''desc'')"
    by (cases "ga_sort_order req") (simp_all add: get_articles_params_def)
  have detail: "map_of ?ps ''detail''
          = Some (if ga_include_content req then ''full'' else ''metadata'')"
    by (simp add: get_articles_params_def)
  have since: "ga_since req = None \<longrightarrow> map_of ?ps ''since'' = Some ''0''"
    by (simp add: get_articles_params_def)
  have dom: "map_of ?ps ''domain_name''
          = (case ga_domain req of None \<Rightarrow> None | Some d \<Rightarrow> if d = [] then None else Some d)"
    by (simp add: get_articles_params_def split: option.splits)
  have dflt: "req = default_GetArticlesRequest \<longrightarrow>
          query_string ?ps = ''archive=0&perPage=100&since=0&order=desc&detail=metadata''"
    by (simp add: get_articles_params_def default_GetArticlesRequest_def per_page_def)
  show ?thesis
  proof (intro exI conjI)
    show "sent_requests (events (snd (snd (get_articles L net self req w))))
         = sent_requests (events w) @ [?rq]"
      by (rule sent)
    show "req_params ?rq = Some ?ps" by simp
  qed (rule keys archive per order detail since dom dflt)+
qed

text \<open>The default request sends exactly the five pairs of the specification's example.\<close>

lemma default_request_parameters:
  "set (get_articles_params L default_GetArticlesRequest)
     = {(''archive'', ''0''), (''perPage'', ''100''), (''order'', ''desc''), (''since'', ''0''),
        (''detail'', ''metadata'')}
   \<and> distinct (map fst (get_articles_params L default_GetArticlesRequest))"
  by (auto simp: get_articles_params_def default_GetArticlesRequest_def per_page_def)

text \<open>
  C4. The claim: the parameters are \<open>archive\<close>, \<open>perPage\<close>, \<open>order\<close>, \<open>detail\<close>, \<open>since\<close> as
  specified (the epoch seconds of a supplied timestamp as an integer) and \<open>domain_name\<close>
  when \<open>domain\<close> is non-empty. On the test suite's custom request the code sends one request
  in which every parameter but \<open>since\<close> is as claimed, and \<open>since\<close> is the float text
  \<open>1672531200.0\<close> where the claim, and the test's \<open>int(since_dt.timestamp())\<close>, have
  \<open>1672531200\<close>.
\<close>

theorem custom_request_sends_float_since:
  "sent_requests (events (snd (snd
      (get_articles example_lib (serve (JObj [])) authenticated_client custom_request
         fresh_world))))
     = [\<lparr>req_method = ''GET'', req_url = ''http://test-wallabag.com/api/entries'',
         req_params = Some [(''archive'', ''1''), (''perPage'', ''5''),
                            (''since'', ''1672531200.0''), (''order'', ''asc''),
                            (''detail'', ''metadata''), (''domain_name'', ''test.dev'')],
         req_data = None,
         req_headers = Some [(''Authorization'', ''Bearer test_access_token'')]\<rparr>]
   \<and> str_int 1672531200 = ''1672531200''"
  by (simp add: run_defs custom_request_def since_2023_def timestamp_str_def str_int_def
      str_nat.simps)

section \<open>The token precondition (C5)\<close>

text \<open>
  C5. A client whose \<open>access_token\<close> is unset (\<open>None\<close>, or any falsy value a failed
  \<open>authenticate\<close> left behind) gets \<open>WallabagAuthError\<close> from each of the three read
  operations; the session is returned as it was, and so is the world: no handle was
  opened and no request was sent.
\<close>

theorem read_operations_require_token:
  assumes "\<not> truthy (access_token self)"
  shows "get_single_article L net self r1 w
           = (Inl (WallabagAuthError ''Access token is not set. Please authenticate first.''),
              self, w)
       \<and> get_articles L net self r2 w
           = (Inl (WallabagAuthError ''Access token is not set. Please authenticate first.''),
              self, w)
       \<and> search_articles L net self r3 w
           = (Inl (WallabagAuthError ''Access token is not set. Please authenticate first.''),
              self, w)"
  using assms by (simp add: get_single_article_def get_articles_def search_articles_def)

theorem read_operations_require_token_witness:
  "\<not> truthy (access_token new_client)
   \<and> get_single_article example_lib (serve (JObj [])) new_client \<lparr>gs_id = 59\<rparr> fresh_world
       = (Inl (WallabagAuthError ''Access token is not set. Please authenticate first.''),
          new_client, fresh_world)
   \<and> get_articles example_lib (serve (JObj [])) new_client default_GetArticlesRequest
         fresh_world
       = (Inl (WallabagAuthError ''Access token is not set. Please authenticate first.''),
          new_client, fresh_world)
   \<and> search_articles example_lib (serve (JObj [])) new_client
         \<lparr>sa_search_term = ''python'', sa_count = None\<rparr> fresh_world
       = (Inl (WallabagAuthError ''Access token is not set. Please authenticate first.''),
          new_client, fresh_world)"
proof -
  have h: "\<not> truthy (access_token new_client)"
    by (simp add: new_client_def)
  show ?thesis
    using h read_operations_require_token [OF h] by simp
qed

section \<open>Responses without the embedded items (C6, C10)\<close>

text \<open>
  C6, as amended. On a 2xx response whose body is a JSON object that has no \<open>_embedded\<close>
  key, or whose \<open>_embedded\<close> is itself an object without an \<open>items\<close> key, \<open>get_articles\<close>
  and \<open>search_articles\<close> of an authenticated client return the empty list.
\<close>

theorem listing_without_items_is_empty:
  assumes "truthy (access_token self)" and "\<And>rq. net rq = Responded r"
    and "is_success (status_code r)" and "resp_json r = Inr (JObj kvs)"
    and "map_of kvs ''_embedded'' = None
         \<or> (\<exists>ekvs. map_of kvs ''_embedded'' = Some (JObj ekvs) \<and> map_of ekvs ''items'' = None)"
  shows "fst (get_articles L net self req w) = Inr []
       \<and> fst (search_articles L net self sreq w) = Inr []"
  using get_articles_ok [OF assms(1-4)] search_articles_ok [OF assms(1-4)]
    embedded_items_absent [OF assms(5)]
  by simp

text \<open>The theorem on the body \<open>{"_embedded": {}}\<close>.\<close>

theorem listing_without_items_is_empty_witness:
  "truthy (access_token authenticated_client)
   \<and> serve (JObj [(''_embedded'', JObj [])]) example_request
       = Responded \<lparr>status_code = 200, resp_text = [],
                    resp_json = Inr (JObj [(''_embedded'', JObj [])])\<rparr>
   \<and> is_success 200
   \<and> map_of [(''_embedded'', JObj [])] ''_embedded'' = Some (JObj [])
   \<and> map_of ([] :: (string \<times> json) list) ''items'' = None
   \<and> fst (get_articles example_lib (serve (JObj [(''_embedded'', JObj [])]))
            authenticated_client default_GetArticlesRequest fresh_world) = Inr []
   \<and> fst (search_articles example_lib (serve (JObj [(''_embedded'', JObj [])]))
            authenticated_client \<lparr>sa_search_term = ''python'', sa_count = None\<rparr> fresh_world)
       = Inr []"
proof -
  have h1: "truthy (access_token authenticated_client)"
    by (simp add: authenticated_client_def)
  have h2: "\<And>rq. serve (JObj [(''_embedded'', JObj [])]) rq
       = Responded \<lparr>status_code = 200, resp_text = [],
                    resp_json = Inr (JObj [(''_embedded'', JObj [])])\<rparr>"
    by (simp add: serve_def)
  have h3: "is_success (status_code \<lparr>status_code = 200, resp_text = [],
                    resp_json = Inr (JObj [(''_embedded'', JObj [])])\<rparr>)"
    by (simp add: is_success_def)
  have h4: "resp_json \<lparr>status_code = 200, resp_text = [],
                    resp_json = Inr (JObj [(''_embedded'', JObj [])])\<rparr>
       = Inr (JObj [(''_embedded'', JObj [])])"
    by simp
  have h5: "map_of [(''_embedded'', JObj [])] ''_embedded'' = None
         \<or> (\<exists>ekvs. map_of [(''_embedded'', JObj [])] ''_embedded'' = Some (JObj ekvs)
               \<and> map_of ekvs ''items'' = None)"
    by simp
  show ?thesis
    using h1 h2 [of example_request] listing_without_items_is_empty
        [where net = "serve (JObj [(''_embedded'', JObj [])])" and L = example_lib
          and req = default_GetArticlesRequest and w = fresh_world
          and sreq = "\<lparr>sa_search_term = ''python'', sa_count = None\<rparr>",
         OF h1 h2 h3 h4 h5]
    by (simp add: is_success_def)
qed

text \<open>
  C6 as stated fails: the body \<open>{"_embedded": null}\<close> has no \<open>_embedded.items\<close> path (its
  \<open>_embedded\<close> has no \<open>items\<close> key), and both operations raise \<open>AttributeError\<close>
  ("'NoneType' object has no attribute 'get'") instead of returning the empty list.
\<close>

theorem null_embedded_counterexample:
  "fst (get_articles example_lib (serve (JObj [(''_embedded'', JNull)]))
          authenticated_client default_GetArticlesRequest fresh_world)
     = Inl (AttributeError ''NoneType'' ''get'')
   \<and> fst (search_articles example_lib (serve (JObj [(''_embedded'', JNull)]))
          authenticated_client \<lparr>sa_search_term = ''python'', sa_count = None\<rparr> fresh_world)
     = Inl (AttributeError ''NoneType'' ''get'')"
  by (simp add: run_defs)

text \<open>
  C10. On a 2xx response whose body decodes to a JSON value that is not an object,
  \<open>get_articles\<close> and \<open>search_articles\<close> of an authenticated client raise the
  \<open>AttributeError\<close> of the first \<open>.get\<close> ("'list' object has no attribute 'get'" for an
  array), which is no \<open>WallabagApiError\<close>.
\<close>

theorem listing_of_non_object_raises_attribute_error:
  assumes "truthy (access_token self)" and "\<And>rq. net rq = Responded r"
    and "is_success (status_code r)" and "resp_json r = Inr j"
    and "\<not> is_dict j"
  shows "fst (get_articles L net self req w) = Inl (AttributeError (type_name j) ''get'')
       \<and> fst (search_articles L net self sreq w) = Inl (AttributeError (type_name j) ''get'')"
  using get_articles_ok [OF assms(1-4)] search_articles_ok [OF assms(1-4)]
    embedded_items_not_object [OF assms(5)]
  by simp

text \<open>The theorem on a top-level empty array.\<close>

theorem listing_of_non_object_raises_attribute_error_witness:
  "truthy (access_token authenticated_client)
   \<and> serve (JArr []) example_request
       = Responded \<lparr>status_code = 200, resp_text = [], resp_json = Inr (JArr [])\<rparr>
   \<and> is_success 200
   \<and> \<not> is_dict (JArr [])
   \<and> fst (get_articles example_lib (serve (JArr [])) authenticated_client
            default_GetArticlesRequest fresh_world) = Inl (AttributeError ''list'' ''get'')
   \<and> fst (search_articles example_lib (serve (JArr [])) authenticated_client
            \<lparr>sa_search_term = ''python'', sa_count = None\<rparr> fresh_world)
       = Inl (AttributeError ''list'' ''get'')"
proof -
  have h1: "truthy (access_token authenticated_client)"
    by (simp add: authenticated_client_def)
  have h2: "\<And>rq. serve (JArr []) rq
       = Responded \<lparr>status_code = 200, resp_text = [], resp_json = Inr (JArr [])\<rparr>"
    by (simp add: serve_def)
  have h3: "is_success (status_code \<lparr>status_code = 200, resp_text = [],
                    resp_json = Inr (JArr [])\<rparr>)"
    by (simp add: is_success_def)
  have h4: "resp_json \<lparr>status_code = 200, resp_text = [], resp_json = Inr (JArr [])\<rparr>
       = Inr (JArr [])"
    by simp
  have h5: "\<not> is_dict (JArr [])"
    by simp
  show ?thesis
    using h1 h2 [of example_request] listing_of_non_object_raises_attribute_error
        [where net = "serve (JArr [])" and L = example_lib
          and req = default_GetArticlesRequest and w = fresh_world
          and sreq = "\<lparr>sa_search_term = ''python'', sa_count = None\<rparr>",
         OF h1 h2 h3 h4 h5]
    by (simp add: is_success_def)
qed

section \<open>Authentication (C7, C9)\<close>

text \<open>
  C7. When one of the four credentials is given neither as an argument nor in the
  environment, \<open>authenticate\<close> raises \<open>WallabagConfigError\<close> with the message that names the
  four required parameters; the session and the world are returned as they were, so no
  handle was opened and no request was sent.
\<close>

theorem authenticate_without_credentials:
  assumes "(client_id = None \<and> env ''WALLABAG_CLIENT_ID'' = None)
         \<or> (client_secret = None \<and> env ''WALLABAG_CLIENT_SECRET'' = None)
         \<or> (username = None \<and> env ''WALLABAG_USERNAME'' = None)
         \<or> (password = None \<and> env ''WALLABAG_PASSWORD'' = None)"
  shows "authenticate env net self client_id client_secret username password w
           = (Inl (WallabagConfigError
                ''Missing required authentication parameters. Please provide client_id, client_secret, username, and password or set corresponding WALLABAG_ environment variables.''),
              self, w)"
proof -
  have "py_or client_id (env ''WALLABAG_CLIENT_ID'') = None
      \<or> py_or client_secret (env ''WALLABAG_CLIENT_SECRET'') = None
      \<or> py_or username (env ''WALLABAG_USERNAME'') = None
      \<or> py_or password (env ''WALLABAG_PASSWORD'') = None"
    using assms by (auto simp: py_or_def)
  then show ?thesis
    unfolding authenticate_def by (rule case_four_none)
qed

text \<open>
  The theorem on the test suite's call: only \<open>client_id\<close> is passed and the environment
  is empty, so \<open>client_secret\<close> is unset.
\<close>

theorem authenticate_without_credentials_witness:
  "(None :: string option) = None \<and> empty_env ''WALLABAG_CLIENT_SECRET'' = None
   \<and> authenticate empty_env (serve (JObj [])) new_client (Some ''cid'') None None None
         fresh_world
       = (Inl (WallabagConfigError
            ''Missing required authentication parameters. Please provide client_id, client_secret, username, and password or set corresponding WALLABAG_ environment variables.''),
          new_client, fresh_world)"
proof -
  have h: "(Some ''cid'' = None \<and> empty_env ''WALLABAG_CLIENT_ID'' = None)
         \<or> ((None :: string option) = None \<and> empty_env ''WALLABAG_CLIENT_SECRET'' = None)
         \<or> ((None :: string option) = None \<and> empty_env ''WALLABAG_USERNAME'' = None)
         \<or> ((None :: string option) = None \<and> empty_env ''WALLABAG_PASSWORD'' = None)"
    by (simp add: empty_env_def)
  have "authenticate empty_env (serve (JObj [])) new_client (Some ''cid'') None None None
         fresh_world
       = (Inl (WallabagConfigError
            ''Missing required authentication parameters. Please provide client_id, client_secret, username, and password or set corresponding WALLABAG_ environment variables.''),
          new_client, fresh_world)"
    by (rule authenticate_without_credentials [OF h])
  then show ?thesis
    by (simp add: empty_env_def)
qed

text \<open>
  C9, as amended. On a client that holds a token, an \<open>authenticate\<close> whose credentials
  resolve and whose 2xx response decodes to a JSON object with a missing or falsy
  \<open>access_token\<close> raises \<open>WallabagAuthError\<close>, and the session's \<open>access_token\<close> is then
  the value \<open>.get("access_token")\<close> returned: \<open>None\<close> when the field is missing (or null),
  otherwise the falsy value itself. Either way the stored token has been overwritten.
\<close>

theorem authenticate_overwrites_token_before_failing:
  assumes held: "truthy (access_token self)"
    and creds: "py_or client_id (env ''WALLABAG_CLIENT_ID'') = Some cid"
      "py_or client_secret (env ''WALLABAG_CLIENT_SECRET'') = Some csec"
      "py_or username (env ''WALLABAG_USERNAME'') = Some un"
      "py_or password (env ''WALLABAG_PASSWORD'') = Some pw"
    and net: "\<And>rq. net rq = Responded r"
    and ok: "is_success (status_code r)"
    and body: "resp_json r = Inr (JObj kvs)"
    and falsy: "\<not> truthy (case map_of kvs ''access_token'' of None \<Rightarrow> JNull | Some v \<Rightarrow> v)"
  shows "fst (authenticate env net self client_id client_secret username password w)
           = Inl (WallabagAuthError ''Authentication successful, but no access token received.'')
       \<and> access_token (fst (snd
            (authenticate env net self client_id client_secret username password w)))
           = (case map_of kvs ''access_token'' of None \<Rightarrow> JNull | Some v \<Rightarrow> v)
       \<and> access_token (fst (snd
            (authenticate env net self client_id client_secret username password w)))
           \<noteq> access_token self"
proof -
  let ?rq = "\<lparr>req_method = ''GET'', req_url = base_url self @ ''/oauth/v2/token'',
              req_params = Some [(''grant_type'', ''password''), (''client_id'', cid),
                                 (''client_secret'', csec), (''username'', un),
                                 (''password'', pw)],
              req_data = None, req_headers = None\<rparr>"
  let ?tok = "case map_of kvs ''access_token'' of None \<Rightarrow> JNull | Some v \<Rightarrow> v"
  obtain x w' where cr: "client_request net self ?rq w = (x, w')"
    by (cases "client_request net self ?rq w")
  have "x = request_result (net ?rq)"
    using client_request_result [of net self ?rq w] cr by simp
  then have x: "x = Inr r"
    using net ok by (simp add: request_result_def)
  have run: "authenticate env net self client_id client_secret username password w
      = (Inl (WallabagAuthError ''Authentication successful, but no access token received.''),
         self\<lparr>access_token := ?tok\<rparr>, w')"
    using creds cr x body falsy by (simp add: authenticate_def)
  have "?tok \<noteq> access_token self"
    using held falsy by auto
  then show ?thesis
    using run by simp
qed

text \<open>
  The theorem on the authenticated client, the test suite's environment and the body
  \<open>{"message": "success but no token"}\<close>: the token is \<open>None\<close> afterwards.
\<close>

theorem authenticate_overwrites_token_before_failing_witness:
  "truthy (access_token authenticated_client)
   \<and> py_or None (example_env ''WALLABAG_CLIENT_ID'') = Some ''test_client_id_env''
   \<and> py_or None (example_env ''WALLABAG_CLIENT_SECRET'') = Some ''test_client_secret_env''
   \<and> py_or None (example_env ''WALLABAG_USERNAME'') = Some ''test_user_env''
   \<and> py_or None (example_env ''WALLABAG_PASSWORD'') = Some ''test_pass_env''
   \<and> serve (JObj [(''message'', JStr ''success but no token'')]) example_request
       = Responded \<lparr>status_code = 200, resp_text = [],
                    resp_json = Inr (JObj [(''message'', JStr ''success but no token'')])\<rparr>
   \<and> is_success 200
   \<and> \<not> truthy JNull
   \<and> fst (authenticate example_env (serve (JObj [(''message'', JStr ''success but no token'')]))
            authenticated_client None None None None fresh_world)
       = Inl (WallabagAuthError ''Authentication successful, but no access token received.'')
   \<and> access_token (fst (snd
        (authenticate example_env (serve (JObj [(''message'', JStr ''success but no token'')]))
           authenticated_client None None None None fresh_world))) = JNull
   \<and> access_token (fst (snd
        (authenticate example_env (serve (JObj [(''message'', JStr ''success but no token'')]))
           authenticated_client None None None None fresh_world)))
       \<noteq> access_token authenticated_client"
proof -
  let ?body = "JObj [(''message'', JStr ''success but no token'')]"
  let ?r = "\<lparr>status_code = 200, resp_text = [], resp_json = Inr ?body\<rparr>"
  have h0: "truthy (access_token authenticated_client)"
    by (simp add: authenticated_client_def)
  have c1: "py_or None (example_env ''WALLABAG_CLIENT_ID'') = Some ''test_client_id_env''"
    by (simp add: py_or_def example_env_def)
  have c2: "py_or None (example_env ''WALLABAG_CLIENT_SECRET'') = Some ''test_client_secret_env''"
    by (simp add: py_or_def example_env_def)
  have c3: "py_or None (example_env ''WALLABAG_USERNAME'') = Some ''test_user_env''"
    by (simp add: py_or_def example_env_def)
  have c4: "py_or None (example_env ''WALLABAG_PASSWORD'') = Some ''test_pass_env''"
    by (simp add: py_or_def example_env_def)
  have h2: "\<And>rq. serve ?body rq = Responded ?r"
    by (simp add: serve_def)
  have h3: "is_success (status_code ?r)"
    by (simp add: is_success_def)
  have h4: "resp_json ?r = Inr (JObj [(''message'', JStr ''success but no token'')])"
    by simp
  have h5: "\<not> truthy (case map_of [(''message'', JStr ''success but no token'')] ''access_token''
                         of None \<Rightarrow> JNull | Some v \<Rightarrow> v)"
    by simp
  show ?thesis
    using h0 c1 c2 c3 c4 h2 [of example_request]
      authenticate_overwrites_token_before_failing [where net = "serve ?body"
        and w = fresh_world, OF h0 c1 c2 c3 c4 h2 h3 h4 h5]
    by (auto simp: is_success_def authenticated_client_def)
qed

text \<open>
  C9 as stated fails: on the body \<open>{"access_token": ""}\<close> the error is raised and the old
  token is gone, but the session's \<open>access_token\<close> is the empty string, not \<open>None\<close>.
\<close>

theorem empty_token_counterexample:
  "fst (authenticate example_env (serve (JObj [(''access_token'', JStr [])]))
          authenticated_client None None None None fresh_world)
     = Inl (WallabagAuthError ''Authentication successful, but no access token received.'')
   \<and> access_token (fst (snd
        (authenticate example_env (serve (JObj [(''access_token'', JStr [])]))
           authenticated_client None None None None fresh_world))) = JStr []
   \<and> access_token (fst (snd
        (authenticate example_env (serve (JObj [(''access_token'', JStr [])]))
           authenticated_client None None None None fresh_world))) \<noteq> JNull"
  by (simp add: authenticate_def py_or_def example_env_def run_defs)

section \<open>The transport handle (C8)\<close>

text \<open>
  C8. Whatever the transport does with the request (a 2xx response, any other status, a
  transport failure, any other exception or a cancellation), \<open>_request\<close> adds to the trace: opening a
  handle, sending through it and closing it, when the client was constructed without a
  transport; the sending alone, through the caller's handle and with no closing, when the
  caller supplied one.
\<close>

theorem request_releases_only_its_own_handle:
  "events (snd (client_request net self rq w))
     = events w
       @ (case supplied_client self of
            None \<Rightarrow> [Opened (next_handle w), Sent (next_handle w) rq, Closed (next_handle w)]
          | Some h \<Rightarrow> [Sent h rq])"
  by (simp add: client_request_def AsyncClient_def emit_def Let_def split: option.splits)

text \<open>
  The theorem on a server that answers 500 and a client of its own handle, and on an
  unreachable server and a client around the caller's handle 7.
\<close>

theorem request_releases_only_its_own_handle_witness:
  "fst (client_request failing_server new_client example_request fresh_world)
     = Inl (WallabagApiError ''API request failed: 500 - Internal Server Error'')
   \<and> events (snd (client_request failing_server new_client example_request fresh_world))
     = [Opened 0, Sent 0 example_request, Closed 0]
   \<and> fst (client_request unreachable shared_client example_request fresh_world)
     = Inl (WallabagApiError ''Request failed: All connection attempts failed'')
   \<and> events (snd (client_request unreachable shared_client example_request fresh_world))
     = [Sent 7 example_request]"
  using request_releases_only_its_own_handle
          [of failing_server new_client example_request fresh_world]
        request_releases_only_its_own_handle
          [of unreachable shared_client example_request fresh_world]
  by (simp add: client_request_result request_result_def failing_server_def unreachable_def
      is_success_def new_client_def shared_client_def fresh_world_def str_nat.simps)

section \<open>The tool adapter (C3)\<close>

text \<open>
  Once the adapter holds a client, no tool raises an \<open>Exception\<close>: whatever
  \<open>except Exception\<close> catches inside the \<open>try\<close> comes back as a \<open>Failure\<close>.
\<close>

lemma tools_with_client_raise_no_Exception:
  assumes "is_Exception e"
  shows "fst (get_single_wallabag_article L env net (Some c) i w) \<noteq> Inl e
       \<and> fst (get_wallabag_articles L env net clock (Some c) a d s n ordr inc w) \<noteq> Inl e
       \<and> fst (tool_search_articles L env net (Some c) q m w) \<noteq> Inl e"
  using assms
  by (auto simp: get_single_wallabag_article_def get_wallabag_articles_def
      tool_search_articles_def ensure_client_def except_Exception_def
      split: prod.splits sum.splits option.splits if_splits)

text \<open>
  The cancellation of the task is no \<open>Exception\<close>: it leaves the tool even when the
  adapter holds a client.
\<close>

lemma tool_lets_cancellation_through:
  "fst (get_single_wallabag_article L env cancelled_transport (Some authenticated_client) 59
          fresh_world) = Inl CancelledError"
  by (simp add: get_single_wallabag_article_def ensure_client_def except_Exception_def
      get_single_article_def request_json_def client_request_def request_result_def
      cancelled_transport_def AsyncClient_def emit_def authenticated_client_def Let_def)

text \<open>
  C3. The claim: no tool ever lets an exception through, the errors of the lazy
  initialisation included. Each tool calls \<open>initialize_client()\<close> before its \<open>try\<close>: with
  no client yet and no \<open>WALLABAG_BASE_URL\<close> in the environment, the \<open>WallabagConfigError\<close>
  of the constructor leaves each of the three tools as an exception, and no failure
  payload is returned.
\<close>

theorem tools_raise_on_failed_initialisation:
  "get_single_wallabag_article L empty_env net None 59 w
     = (Inl (WallabagConfigError
          ''Wallabag base URL is not set. Provide it or set WALLABAG_BASE_URL environment variable.''),
        None, w)
   \<and> get_wallabag_articles L empty_env net clock None False None None None Desc False w
     = (Inl (WallabagConfigError
          ''Wallabag base URL is not set. Provide it or set WALLABAG_BASE_URL environment variable.''),
        None, w)
   \<and> tool_search_articles L empty_env net None ''python'' None w
     = (Inl (WallabagConfigError
          ''Wallabag base URL is not set. Provide it or set WALLABAG_BASE_URL environment variable.''),
        None, w)"
  by (simp add: get_single_wallabag_article_def get_wallabag_articles_def
      tool_search_articles_def ensure_client_def initialize_client_def WallabagClient_init_def
      py_or_def empty_env_def)

text \<open>
  The errors of \<open>authenticate\<close> leave the tool the same way: with the test suite's
  environment and a server that answers 500, the first call raises \<open>WallabagAuthError\<close>.
\<close>

lemma tool_raises_on_failed_authentication:
  "fst (get_single_wallabag_article L example_env failing_server None 59 fresh_world)
     = Inl (WallabagAuthError
         ''Authentication failed: API request failed: 500 - Internal Server Error'')"
  by (simp add: get_single_wallabag_article_def ensure_client_def initialize_client_def
      WallabagClient_init_def authenticate_def py_or_def example_env_def failing_server_def
      client_request_def request_result_def AsyncClient_def emit_def is_success_def
      fresh_world_def Let_def str_nat.simps)

section \<open>Further properties of the client\<close>

text \<open>
  Construction without a base URL, as an argument or in the environment, raises
  \<open>WallabagConfigError\<close>.
\<close>

lemma constructor_requires_base_url:
  assumes "base = None \<or> base = Some []" and "env ''WALLABAG_BASE_URL'' = None"
  shows "WallabagClient_init env base c
       = Inl (WallabagConfigError
           ''Wallabag base URL is not set. Provide it or set WALLABAG_BASE_URL environment variable.'')"
  using assms by (auto simp: WallabagClient_init_def py_or_def)

lemma constructor_requires_base_url_witness:
  "empty_env ''WALLABAG_BASE_URL'' = None
   \<and> WallabagClient_init empty_env None None
       = Inl (WallabagConfigError
           ''Wallabag base URL is not set. Provide it or set WALLABAG_BASE_URL environment variable.'')"
proof -
  have h1: "(None :: string option) = None \<or> (None :: string option) = Some []"
    by simp
  have h2: "empty_env ''WALLABAG_BASE_URL'' = None"
    by (simp add: empty_env_def)
  show ?thesis
    using h2 constructor_requires_base_url [where env = empty_env and base = None
        and c = None, OF h1 h2]
    by simp
qed

text \<open>
  A 2xx response that decodes to an object with a truthy \<open>access_token\<close> makes
  \<open>authenticate\<close> return \<open>True\<close> and store that token on the session.
\<close>

lemma authenticate_stores_token:
  assumes creds: "py_or client_id (env ''WALLABAG_CLIENT_ID'') = Some cid"
      "py_or client_secret (env ''WALLABAG_CLIENT_SECRET'') = Some csec"
      "py_or username (env ''WALLABAG_USERNAME'') = Some un"
      "py_or password (env ''WALLABAG_PASSWORD'') = Some pw"
    and net: "\<And>rq. net rq = Responded r"
    and ok: "is_success (status_code r)"
    and body: "resp_json r = Inr (JObj kvs)"
    and tok: "map_of kvs ''access_token'' = Some tok" "truthy tok"
  shows "fst (authenticate env net self client_id client_secret username password w) = Inr True
       \<and> fst (snd (authenticate env net self client_id client_secret username password w))
           = self\<lparr>access_token := tok\<rparr>"
proof -
  let ?rq = "\<lparr>req_method = ''GET'', req_url = base_url self @ ''/oauth/v2/token'',
              req_params = Some [(''grant_type'', ''password''), (''client_id'', cid),
                                 (''client_secret'', csec), (''username'', un),
                                 (''password'', pw)],
              req_data = None, req_headers = None\<rparr>"
  obtain x w' where cr: "client_request net self ?rq w = (x, w')"
    by (cases "client_request net self ?rq w")
  have "x = request_result (net ?rq)"
    using client_request_result [of net self ?rq w] cr by simp
  then have "x = Inr r"
    using net ok by (simp add: request_result_def)
  then show ?thesis
    using creds cr body tok by (simp add: authenticate_def)
qed

lemma authenticate_stores_token_witness:
  "fst (authenticate example_env (serve (JObj [(''access_token'', JStr ''test_token_env'')]))
          new_client None None None None fresh_world) = Inr True
   \<and> fst (snd (authenticate example_env
          (serve (JObj [(''access_token'', JStr ''test_token_env'')]))
          new_client None None None None fresh_world))
       = new_client\<lparr>access_token := JStr ''test_token_env''\<rparr>"
  by (rule authenticate_stores_token
        [where net = "serve (JObj [(''access_token'', JStr ''test_token_env'')])"
           and r = "\<lparr>status_code = 200, resp_text = [],
                       resp_json = Inr (JObj [(''access_token'', JStr ''test_token_env'')])\<rparr>"
           and kvs = "[(''access_token'', JStr ''test_token_env'')]"])
     (simp_all add: py_or_def example_env_def serve_def is_success_def)

text \<open>
  A response with a status outside 2xx makes \<open>authenticate\<close> raise \<open>WallabagAuthError\<close>
  with the status code and the response text in its message, and leaves the session as it
  was.
\<close>

lemma authenticate_rejected_by_server:
  assumes creds: "py_or client_id (env ''WALLABAG_CLIENT_ID'') = Some cid"
      "py_or client_secret (env ''WALLABAG_CLIENT_SECRET'') = Some csec"
      "py_or username (env ''WALLABAG_USERNAME'') = Some un"
      "py_or password (env ''WALLABAG_PASSWORD'') = Some pw"
    and net: "\<And>rq. net rq = Responded r"
    and bad: "\<not> is_success (status_code r)"
  shows "fst (authenticate env net self client_id client_secret username password w)
           = Inl (WallabagAuthError
               (''Authentication failed: API request failed: '' @ str_nat (status_code r)
                 @ '' - '' @ resp_text r))
       \<and> fst (snd (authenticate env net self client_id client_secret username password w))
           = self"
proof -
  let ?rq = "\<lparr>req_method = ''GET'', req_url = base_url self @ ''/oauth/v2/token'',
              req_params = Some [(''grant_type'', ''password''), (''client_id'', cid),
                                 (''client_secret'', csec), (''username'', un),
                                 (''password'', pw)],
              req_data = None, req_headers = None\<rparr>"
  obtain x w' where cr: "client_request net self ?rq w = (x, w')"
    by (cases "client_request net self ?rq w")
  have "x = request_result (net ?rq)"
    using client_request_result [of net self ?rq w] cr by simp
  then have "x = Inl (WallabagApiError
      (''API request failed: '' @ str_nat (status_code r) @ '' - '' @ resp_text r))"
    using net bad by (simp add: request_result_def)
  then show ?thesis
    using creds cr by (simp add: authenticate_def)
qed

lemma authenticate_rejected_by_server_witness:
  "fst (authenticate example_env failing_server new_client None None None None fresh_world)
     = Inl (WallabagAuthError
         ''Authentication failed: API request failed: 500 - Internal Server Error'')
   \<and> fst (snd (authenticate example_env failing_server new_client None None None None
        fresh_world)) = new_client"
proof -
  let ?r = "\<lparr>status_code = 500, resp_text = ''Internal Server Error'',
             resp_json = Inl ''Expecting value: line 1 column 1 (char 0)''\<rparr>"
  have c1: "py_or None (example_env ''WALLABAG_CLIENT_ID'') = Some ''test_client_id_env''"
    by (simp add: py_or_def example_env_def)
  have c2: "py_or None (example_env ''WALLABAG_CLIENT_SECRET'') = Some ''test_client_secret_env''"
    by (simp add: py_or_def example_env_def)
  have c3: "py_or None (example_env ''WALLABAG_USERNAME'') = Some ''test_user_env''"
    by (simp add: py_or_def example_env_def)
  have c4: "py_or None (example_env ''WALLABAG_PASSWORD'') = Some ''test_pass_env''"
    by (simp add: py_or_def example_env_def)
  have n: "\<And>rq. failing_server rq = Responded ?r"
    by (simp add: failing_server_def)
  have b: "\<not> is_success (status_code ?r)"
    by (simp add: is_success_def)
  show ?thesis
    using authenticate_rejected_by_server [where net = failing_server and self = new_client
        and w = fresh_world, OF c1 c2 c3 c4 n b]
    by (simp add: str_nat.simps)
qed

end
